theory Spec2Isabelle
  imports Complex_Main "HOL-Library.Multiset"
begin

section \<open>Floating-point values\<close>

text \<open>
  The module computes on numpy float arrays. A float is modelled as an exact real number or
  one of the three special values; rounding, overflow and the sign of zero are abstracted
  away (\<open>Fin 0\<close> stands for \<open>+0.0\<close>).
\<close>

datatype fl = NaN | NInf | Fin real | PInf

fun fl_ord :: "fl \<Rightarrow> nat" where
  "fl_ord NInf = 0"
| "fl_ord (Fin r) = 1"
| "fl_ord PInf = 2"
| "fl_ord NaN = 3"

fun fl_val :: "fl \<Rightarrow> real" where
  "fl_val (Fin r) = r"
| "fl_val v = 0"

text \<open>
  The order used for sorting: the usual order of the extended reals. \<open>NaN\<close> is placed
  above everything only to make the order total; Python's \<open>sorted\<close> gives no such
  guarantee on a list holding a NaN, so statements about sorted output are made for
  NaN-free samples.
\<close>

instantiation fl :: linorder
begin

definition less_eq_fl :: "fl \<Rightarrow> fl \<Rightarrow> bool" where
  "less_eq_fl a b = (fl_ord a < fl_ord b \<or> (fl_ord a = fl_ord b \<and> fl_val a \<le> fl_val b))"

definition less_fl :: "fl \<Rightarrow> fl \<Rightarrow> bool" where
  "less_fl a b = (fl_ord a < fl_ord b \<or> (fl_ord a = fl_ord b \<and> fl_val a < fl_val b))"

instance
proof
  fix x y z :: fl
  show "(x < y) = (x \<le> y \<and> \<not> y \<le> x)"
    by (auto simp: less_eq_fl_def less_fl_def)
  show "x \<le> x"
    by (simp add: less_eq_fl_def)
  show "x \<le> y \<Longrightarrow> y \<le> z \<Longrightarrow> x \<le> z"
    by (auto simp: less_eq_fl_def)
  show "x \<le> y \<Longrightarrow> y \<le> x \<Longrightarrow> x = y"
    by (cases x; cases y) (auto simp: less_eq_fl_def)
  show "x \<le> y \<or> y \<le> x"
    by (auto simp: less_eq_fl_def)
qed

end

definition fl_isnan :: "fl \<Rightarrow> bool" where
  "fl_isnan v = (v = NaN)"

definition fl_isfinite :: "fl \<Rightarrow> bool" where
  "fl_isfinite v = (case v of Fin r \<Rightarrow> True | _ \<Rightarrow> False)"

text \<open>IEEE comparisons: every comparison with a NaN is false.\<close>

definition fl_le :: "fl \<Rightarrow> fl \<Rightarrow> bool" where
  "fl_le a b = (a \<noteq> NaN \<and> b \<noteq> NaN \<and> a \<le> b)"

definition fl_lt :: "fl \<Rightarrow> fl \<Rightarrow> bool" where
  "fl_lt a b = (a \<noteq> NaN \<and> b \<noteq> NaN \<and> a < b)"

text \<open>IEEE division and multiplication.\<close>

fun fl_div :: "fl \<Rightarrow> fl \<Rightarrow> fl" where
  "fl_div NaN b = NaN"
| "fl_div a NaN = NaN"
| "fl_div (Fin a) (Fin b) =
     (if b = 0 then (if a = 0 then NaN else if 0 < a then PInf else NInf) else Fin (a / b))"
| "fl_div (Fin a) b = Fin 0"
| "fl_div PInf (Fin b) = (if b < 0 then NInf else PInf)"
| "fl_div NInf (Fin b) = (if b < 0 then PInf else NInf)"
| "fl_div a b = NaN"

fun fl_mul :: "fl \<Rightarrow> fl \<Rightarrow> fl" where
  "fl_mul NaN b = NaN"
| "fl_mul a NaN = NaN"
| "fl_mul (Fin a) (Fin b) = Fin (a * b)"
| "fl_mul (Fin a) PInf = (if a = 0 then NaN else if 0 < a then PInf else NInf)"
| "fl_mul (Fin a) NInf = (if a = 0 then NaN else if 0 < a then NInf else PInf)"
| "fl_mul PInf (Fin b) = (if b = 0 then NaN else if 0 < b then PInf else NInf)"
| "fl_mul NInf (Fin b) = (if b = 0 then NaN else if 0 < b then NInf else PInf)"
| "fl_mul PInf PInf = PInf"
| "fl_mul PInf NInf = NInf"
| "fl_mul NInf PInf = NInf"
| "fl_mul NInf NInf = PInf"

section \<open>The ECDF builder\<close>

text \<open>
  \<open>plotECDF(x, n=None, **plotArgs)\<close>. The model returns the two coordinate sequences
  that the function hands to the renderer (\<open>plt.plot\<close> for the empty curve,
  \<open>plotUnifLogXMarkers\<close> otherwise). \<open>sorted(x)\<close> builds a new list and
  \<open>np.hstack\<close> a new array, so the argument is only read: the model is a function of
  its value.
\<close>

type_synonym curve = "fl list \<times> real list"

definition plotECDF :: "fl list \<Rightarrow> int option \<Rightarrow> curve" where
  "plotECDF x n_arg =
     (let n = (case n_arg of None \<Rightarrow> int (length x) | Some m \<Rightarrow> m);
          nx = length x
      in if n = 0 \<or> nx = 0 then ([], [])
         else (let xs = sort x
               in (xs @ [last xs],
                   map (\<lambda>i. real i / real_of_int n) [0..<nx] @ [real nx / real_of_int n])))"

text \<open>
  The same function over a store of list objects, to show what happens to the object the
  caller passes: \<open>x\<close> is the address of the caller's sequence, \<open>sorted(x)\<close> and
  \<open>np.hstack((x, x[-1]))\<close> each allocate a new object and rebind the local name.
\<close>

record store =
  objs :: "nat \<Rightarrow> fl list"
  fresh :: nat

definition alloc :: "fl list \<Rightarrow> store \<Rightarrow> nat \<times> store" where
  "alloc v s = (fresh s, s\<lparr>objs := (objs s)(fresh s := v), fresh := Suc (fresh s)\<rparr>)"

definition plotECDF_store :: "nat \<Rightarrow> int option \<Rightarrow> store \<Rightarrow> curve \<times> store" where
  "plotECDF_store x n_arg s =
     (let n = (case n_arg of None \<Rightarrow> int (length (objs s x)) | Some m \<Rightarrow> m);
          nx = length (objs s x)
      in if n = 0 \<or> nx = 0 then (([], []), s)
         else (let (x1, s1) = alloc (sort (objs s x)) s;
                   (x2, s2) = alloc (objs s1 x1 @ [last (objs s1 x1)]) s1
               in ((objs s2 x2,
                    map (\<lambda>i. real i / real_of_int n) [0..<nx] @ [real nx / real_of_int n]),
                   s2)))"

section \<open>Trial records\<close>

text \<open>
  A \<open>DataSet\<close> of \<open>bbob_pproc.pproc\<close>, read-only here. The class itself is not part
  of this module, so what the module reads from it is taken as given: \<open>detEvals ds t\<close>
  stands for \<open>ds.detEvals((t, ))[0]\<close>, the run-length row at target \<open>t\<close> (one entry per
  run, NaN for a run that never reached the target), and a row of \<open>funvals\<close> is the pair
  of its first column \<open>j[0]\<close> (the evaluation count) and the rest \<open>j[1:]\<close> (the gap of
  every run at that count).
\<close>

record DataSet =
  funcId :: int
  ds_dim :: int
  nbRuns :: int
  detEvals :: "real \<Rightarrow> fl list"
  funvals :: "(fl \<times> fl list) list"

section \<open>Formatting of counts\<close>

text \<open>The conversion \<open>'%d' % k\<close> for a count \<open>k\<close>.\<close>

definition digit :: "nat \<Rightarrow> char" where
  "digit k = ''0123456789'' ! k"

function fmt_d :: "nat \<Rightarrow> string" where
  "fmt_d k = (if k < 10 then [digit k] else fmt_d (k div 10) @ [digit (k mod 10)])"
  by pat_completeness auto
termination
  by (relation "measure (\<lambda>k. k)") auto

declare fmt_d.simps [simp del]

section \<open>The run-length aggregator\<close>

text \<open>
  \<open>plotRLDistr(dsList, target, label, max_fun_evals=np.inf, **plotArgs)\<close>. The loop state
  is \<open>(x, nn, fsolved, funcs)\<close>; one step is the body of \<open>for ds in dsList\<close>.
  \<open>sum(tmp <= max_fun_evals)\<close> counts the entries below the cap and is tested for being
  non-zero.
\<close>

type_synonym rld_state = "fl list \<times> int \<times> int set \<times> int set"

definition rld_tmp :: "(int \<times> int \<Rightarrow> real) \<Rightarrow> DataSet \<Rightarrow> fl list" where
  "rld_tmp target ds =
     filter (\<lambda>v. \<not> fl_isnan v)
       (map (\<lambda>v. fl_div v (Fin (real_of_int (ds_dim ds))))
            (detEvals ds (target (funcId ds, ds_dim ds))))"

fun rld_step :: "(int \<times> int \<Rightarrow> real) \<Rightarrow> fl \<Rightarrow> rld_state \<Rightarrow> DataSet \<Rightarrow> rld_state" where
  "rld_step target max_fun_evals (x, nn, fsolved, funcs) ds =
     (let tmp = rld_tmp target ds
      in (x @ tmp,
          nn + nbRuns ds,
          (if 0 < length tmp \<and> length (filter (\<lambda>v. fl_le v max_fun_evals) tmp) \<noteq> 0
           then insert (funcId ds) fsolved else fsolved),
          insert (funcId ds) funcs))"

definition rld_loop :: "(int \<times> int \<Rightarrow> real) \<Rightarrow> fl \<Rightarrow> DataSet list \<Rightarrow> rld_state" where
  "rld_loop target max_fun_evals dsList = foldl (rld_step target max_fun_evals) ([], 0, {}, {}) dsList"

text \<open>
  The result is the curve handed to \<open>plotECDF\<close> together with the label of the line:
  the counts are appended to \<open>label\<close>, and a \<open>label\<close> among the plot arguments takes
  precedence (\<open>kwargs.setdefault\<close>).
\<close>

definition plotRLDistr ::
  "DataSet list \<Rightarrow> (int \<times> int \<Rightarrow> real) \<Rightarrow> string \<Rightarrow> fl \<Rightarrow> string option \<Rightarrow> curve \<times> string" where
  "plotRLDistr dsList target label max_fun_evals plotArgs_label =
     (case rld_loop target max_fun_evals dsList of
        (x, nn, fsolved, funcs) \<Rightarrow>
          (let label' = label @ '': '' @ fmt_d (card fsolved) @ ''/'' @ fmt_d (card funcs)
           in (plotECDF x (Some nn),
               (case plotArgs_label of Some l \<Rightarrow> l | None \<Rightarrow> label'))))"

section \<open>The final-value aggregator\<close>

text \<open>
  \<open>plotFVDistr(dsList, target, maxEvalsF=np.inf, **plotArgs)\<close>. The target is a float or
  a mapping from function IDs, told apart by the \<open>TypeError\<close> of indexing a float.
\<close>

datatype error = NameError | KeyError | ValueError

datatype target_spec = Fixed real | PerFunction "int \<rightharpoonup> real"

text \<open>
  The inner loop \<open>for j in i.funvals: if j[0] >= maxEvalsF * i.dim: break\<close>. The loop
  variable \<open>j\<close> outlives the loop and is not reset between records, so it is part of the
  state: \<open>None\<close> while it is unbound.
\<close>

fun select_row :: "fl \<Rightarrow> (fl \<times> fl list) option \<Rightarrow> (fl \<times> fl list) list \<Rightarrow> (fl \<times> fl list) option" where
  "select_row bound j [] = j"
| "select_row bound j (r # rs) =
     (if fl_le bound (fst r) then Some r else select_row bound (Some r) rs)"

text \<open>
  \<open>min(np.append(tmp[tmp>0],[target])>0)\<close>: the comparison with zero is applied to the
  whole appended array, inside \<open>min\<close>, so the minimum is taken over truth values; the
  assignment into the float array turns it into 1.0 or 0.0. A mapping compares greater
  than any number (the interpreter's ordering of unlike types).
\<close>

definition min_bool :: "bool list \<Rightarrow> bool" where
  "min_bool bs = list_all (\<lambda>b. b) bs"

definition clamp_value :: "fl list \<Rightarrow> target_spec \<Rightarrow> fl" where
  "clamp_value tmp target =
     (let flags = map (\<lambda>v. fl_lt (Fin 0) v) (filter (\<lambda>v. fl_lt (Fin 0) v) tmp)
                  @ [case target of Fixed t \<Rightarrow> 0 < t | PerFunction m \<Rightarrow> True]
      in if min_bool flags then Fin 1 else Fin 0)"

definition clamp :: "fl list \<Rightarrow> target_spec \<Rightarrow> fl list" where
  "clamp tmp target =
     (let c = clamp_value tmp target
      in map (\<lambda>v. if fl_le v (Fin 0) then c else v) tmp)"

definition divisor :: "target_spec \<Rightarrow> int \<Rightarrow> error + real" where
  "divisor target f =
     (case target of
        Fixed t \<Rightarrow> Inr t
      | PerFunction m \<Rightarrow> (case m f of None \<Rightarrow> Inl KeyError | Some t \<Rightarrow> Inr t))"

type_synonym fvd_state = "fl list \<times> int \<times> (fl \<times> fl list) option"

fun fvd_step :: "target_spec \<Rightarrow> fl \<Rightarrow> fvd_state \<Rightarrow> DataSet \<Rightarrow> error + fvd_state" where
  "fvd_step target maxEvalsF (x, nn, j) i =
     (case select_row (fl_mul maxEvalsF (Fin (real_of_int (ds_dim i)))) j (funvals i) of
        None \<Rightarrow> Inl NameError
      | Some r \<Rightarrow>
          (case divisor target (funcId i) of
             Inl e \<Rightarrow> Inl e
           | Inr t \<Rightarrow>
               (let tmp = clamp (map (\<lambda>v. fl_div v (Fin t)) (snd r)) target
                in Inr (x @ tmp, nn + nbRuns i, Some r))))"

fun fvd_loop :: "target_spec \<Rightarrow> fl \<Rightarrow> fvd_state \<Rightarrow> DataSet list \<Rightarrow> error + fvd_state" where
  "fvd_loop target maxEvalsF st [] = Inr st"
| "fvd_loop target maxEvalsF st (i # dsList) =
     (case fvd_step target maxEvalsF st i of
        Inl e \<Rightarrow> Inl e
      | Inr st' \<Rightarrow> fvd_loop target maxEvalsF st' dsList)"

definition plotFVDistr :: "DataSet list \<Rightarrow> target_spec \<Rightarrow> fl \<Rightarrow> error + curve" where
  "plotFVDistr dsList target maxEvalsF =
     (case fvd_loop target maxEvalsF ([], 0, None) dsList of
        Inl e \<Rightarrow> Inl e
      | Inr (x, nn, j) \<Rightarrow> Inr (plotECDF x (Some nn)))"

section \<open>The boundary extender\<close>

text \<open>
  \<open>beautifyECDF()\<close> walks over the children of the current axes. A child that offers the
  getters of a line is read through them; any other child raises \<open>AttributeError\<close> at
  the first getter and is skipped. Plotted coordinates are finite numbers.
\<close>

record line =
  drawstyle :: string
  linestyle :: string
  marker :: string
  xdata :: "real list"
  ydata :: "real list"

datatype child = Line2D line | Other

definition nbperdecade :: int where
  "nbperdecade = 1"

text \<open>The builtin \<open>max\<close> of a non-empty sequence: the first element that no later one exceeds.\<close>

fun py_max :: "real list \<Rightarrow> real" where
  "py_max [] = 0"
| "py_max (v # vs) = foldl (\<lambda>m w. if m < w then w else m) v vs"

text \<open>
  The positions \<open>10. ** (np.arange(minidx, maxidx + 1) / nbperdecade)\<close> appended to a
  marker-only line, for positive \<open>xlast\<close> and \<open>xmax\<close>, where \<open>np.log10\<close> is \<open>log 10\<close>.
\<close>

definition marker_positions :: "int \<Rightarrow> real \<Rightarrow> real \<Rightarrow> real list" where
  "marker_positions nb xlast xmax =
     (let minidx = \<lceil>log 10 xlast * real_of_int nb\<rceil>;
          maxidx = \<lfloor>log 10 xmax * real_of_int nb\<rfloor>
      in map (\<lambda>k. 10 powr (real_of_int k / real_of_int nb)) [minidx..maxidx])"

text \<open>
  The body of the loop for one line, inside the \<open>try\<close>. \<open>ydata[-1]\<close> on an empty
  sequence raises \<open>IndexError\<close>, which is caught before \<open>plt.setp\<close> is reached: the line
  stays as it was. In the marker branch \<open>minidx\<close> is computed first: for a last abscissa
  that is zero or negative \<open>np.log10\<close> gives \<open>-inf\<close> or NaN and \<open>np.arange\<close> raises
  \<open>ValueError\<close>, which is not among the exceptions caught. In that branch \<open>xmax\<close>
  exceeds the largest abscissa, so with a positive last abscissa it is positive too.
  \<open>py_max\<close> is only called on a non-empty sequence.
\<close>

definition extend_line :: "int \<Rightarrow> real \<Rightarrow> line \<Rightarrow> error + line" where
  "extend_line nb xmax l =
     (if drawstyle l = ''steps'' \<and> linestyle l \<notin> {'''', ''None''} then
        (if 0 < length (xdata l) then
           (if py_max (xdata l) < xmax then
              (if ydata l = [] then Inr l
               else Inr (l\<lparr>xdata := xdata l @ [xmax], ydata := ydata l @ [last (ydata l)]\<rparr>))
            else Inr l)
         else Inr l)
      else if drawstyle l = ''steps'' \<and> marker l \<noteq> '''' \<and> linestyle l \<in> {'''', ''None''} then
        (if 0 < length (xdata l) then
           (if py_max (xdata l) < xmax then
              (if last (xdata l) \<le> 0 then Inl ValueError
               else (let x = marker_positions nb (last (xdata l)) xmax
                     in if ydata l = [] then Inr l
                        else Inr (l\<lparr>xdata := xdata l @ x,
                                   ydata := ydata l @ replicate (length x) (last (ydata l))\<rparr>)))
            else Inr l)
         else Inr l)
      else Inr l)"

text \<open>
  The loop over the children. An exception that is not caught ends the call: the children
  handled before keep their new data, the raising child and those after it stay as they
  were. The result is the exception, if any, and the children after the call.
\<close>

fun extend_children :: "int \<Rightarrow> real \<Rightarrow> child list \<Rightarrow> error option \<times> child list" where
  "extend_children nb xmax [] = (None, [])"
| "extend_children nb xmax (Other # c) =
     (case extend_children nb xmax c of (e, c') \<Rightarrow> (e, Other # c'))"
| "extend_children nb xmax (Line2D l # c) =
     (case extend_line nb xmax l of
        Inl e \<Rightarrow> (Some e, Line2D l # c)
      | Inr l' \<Rightarrow> (case extend_children nb xmax c of (e, c') \<Rightarrow> (e, Line2D l' # c')))"

text \<open>
  The state of the axes that matters here: the limits of the abscissa and the children.
  The lower limit is moved to \<open>xmin * 0.90\<close> before the loop; the upper limit read before
  is the one the lines are extended to.
\<close>

definition beautifyECDF ::
  "(real \<times> real) \<times> child list \<Rightarrow> error option \<times> ((real \<times> real) \<times> child list)" where
  "beautifyECDF ax =
     (case ax of ((xmin, xmax), c) \<Rightarrow>
        (case extend_children nbperdecade xmax c of
           (e, c') \<Rightarrow> (e, ((xmin * 0.90, xmax), c'))))"

section \<open>The stored ceiling of the abscissa\<close>

text \<open>
  The module variable \<open>evalfmax\<close> is the only state kept between calls. \<open>main\<close> and
  \<open>comp\<close> declare it \<open>global\<close> inside a branch; the declaration holds for the whole
  function body, so both branches read and write the module variable. The head of the
  loop over the dimensions sets the ceiling from \<open>maxEvalsFactor\<close>, the largest
  \<open>mMaxEvals()/d\<close> of the dimension, which is taken as given.
\<close>

definition runlen_xlimits_max :: "real option" where
  "runlen_xlimits_max = None"

text \<open>Truth value of \<open>evalfmax\<close> in \<open>if not evalfmax\<close>: \<open>None\<close> and zero are false.\<close>

fun truthy :: "real option \<Rightarrow> bool" where
  "truthy None = False"
| "truthy (Some r) = (r \<noteq> 0)"

definition set_evalfmax :: "bool \<Rightarrow> real \<Rightarrow> real option \<Rightarrow> real option" where
  "set_evalfmax isStoringXMax maxEvalsFactor evalfmax =
     (let e1 = (if isStoringXMax then evalfmax else None);
          e2 = (if \<not> truthy e1 then Some maxEvalsFactor else e1)
      in (case runlen_xlimits_max of None \<Rightarrow> e2 | Some r \<Rightarrow> Some r))"

text \<open>
  The loop of \<open>main\<close> over the dimensions, in the order they are processed, reduced to
  the ceiling: the result lists the value of \<open>evalfmax\<close> that the figures of each
  dimension are drawn with, and the value left in the module variable. The loop of
  \<open>comp\<close> has the same head.
\<close>

fun main :: "bool \<Rightarrow> real list \<Rightarrow> real option \<Rightarrow> real option list \<times> real option" where
  "main isStoringXMax [] evalfmax = ([], evalfmax)"
| "main isStoringXMax (maxEvalsFactor # rest) evalfmax =
     (let e = set_evalfmax isStoringXMax maxEvalsFactor evalfmax;
          (used, final) = main isStoringXMax rest e
      in (e # used, final))"

definition comp_figures :: "bool \<Rightarrow> real list \<Rightarrow> real option \<Rightarrow> real option list \<times> real option" where
  "comp_figures isStoringXMax factors evalfmax = main isStoringXMax factors evalfmax"

section \<open>The run-length aggregation as the specification words it\<close>

text \<open>
  Not taken from the code: the sample, the count and the two numbers of the label as the
  specification describes them, to compare \<open>plotRLDistr\<close> with. The surviving values
  of a record are the finite entries of its run-length row divided by the dimension; a
  function counts as solved when a record of it has a surviving value that does not exceed
  the cap.
\<close>

definition spec_survivors :: "(int \<times> int \<Rightarrow> real) \<Rightarrow> DataSet \<Rightarrow> fl list" where
  "spec_survivors target ds =
     filter fl_isfinite
       (map (\<lambda>v. fl_div v (Fin (real_of_int (ds_dim ds)))) (detEvals ds (target (funcId ds, ds_dim ds))))"

definition spec_sample :: "(int \<times> int \<Rightarrow> real) \<Rightarrow> DataSet list \<Rightarrow> fl list" where
  "spec_sample target dsList = concat (map (spec_survivors target) dsList)"

definition spec_count :: "DataSet list \<Rightarrow> int" where
  "spec_count dsList = sum_list (map nbRuns dsList)"

definition spec_solved :: "(int \<times> int \<Rightarrow> real) \<Rightarrow> fl \<Rightarrow> DataSet list \<Rightarrow> nat" where
  "spec_solved target cap dsList =
     card (set (map funcId
       (filter (\<lambda>ds. list_ex (\<lambda>v. fl_le v cap) (spec_survivors target ds)) dsList)))"

definition spec_total :: "DataSet list \<Rightarrow> nat" where
  "spec_total dsList = card (set (map funcId dsList))"

section \<open>The run-length aggregation with the NaN marker only\<close>

text \<open>
  The same description with one word changed: the surviving values of a record are the
  entries of its run-length row, divided by the dimension, that are not NaN. An infinite
  entry survives.
\<close>

definition nan_survivors :: "(int \<times> int \<Rightarrow> real) \<Rightarrow> DataSet \<Rightarrow> fl list" where
  "nan_survivors target ds =
     filter (\<lambda>v. \<not> fl_isnan v)
       (map (\<lambda>v. fl_div v (Fin (real_of_int (ds_dim ds)))) (detEvals ds (target (funcId ds, ds_dim ds))))"

definition nan_sample :: "(int \<times> int \<Rightarrow> real) \<Rightarrow> DataSet list \<Rightarrow> fl list" where
  "nan_sample target dsList = concat (map (nan_survivors target) dsList)"

definition nan_solved :: "(int \<times> int \<Rightarrow> real) \<Rightarrow> fl \<Rightarrow> DataSet list \<Rightarrow> nat" where
  "nan_solved target cap dsList =
     card (set (map funcId
       (filter (\<lambda>ds. list_ex (\<lambda>v. fl_le v cap) (nan_survivors target ds)) dsList)))"

section \<open>The budget row as the specification words it\<close>

text \<open>
  Not taken from the code: the row of a non-empty function-value matrix that the
  specification describes, the last row whose evaluation count does not exceed the bound,
  and the first row when there is none.
\<close>

definition spec_select_row :: "fl \<Rightarrow> (fl \<times> fl list) list \<Rightarrow> fl \<times> fl list" where
  "spec_select_row bound rows =
     (case filter (\<lambda>r. fl_le (fst r) bound) rows of
        [] \<Rightarrow> hd rows
      | q # qs \<Rightarrow> last (q # qs))"

section \<open>The budget row in closed form\<close>

text \<open>
  The row that the inner loop of \<open>plotFVDistr\<close> leaves in \<open>j\<close> for a non-empty matrix,
  written without the loop: the first row, in stored order, whose evaluation count reaches
  the bound, and the last row when none does. \<open>fvd_tmp\<close> is the contribution of one
  record to the sample: the gaps of that row divided by the divisor \<open>t\<close>, clamped.
\<close>

definition first_row_reaching :: "fl \<Rightarrow> (fl \<times> fl list) list \<Rightarrow> fl \<times> fl list" where
  "first_row_reaching bound rows =
     (case find (\<lambda>r. fl_le bound (fst r)) rows of Some r \<Rightarrow> r | None \<Rightarrow> last rows)"

definition fvd_tmp :: "target_spec \<Rightarrow> fl \<Rightarrow> real \<Rightarrow> DataSet \<Rightarrow> fl list" where
  "fvd_tmp target maxEvalsF t i =
     clamp (map (\<lambda>v. fl_div v (Fin t))
              (snd (first_row_reaching (fl_mul maxEvalsF (Fin (real_of_int (ds_dim i)))) (funvals i))))
           target"

section \<open>The scenario of the specification's seventh testable property\<close>

text \<open>
  Two records of one function in dimension 5 with 10 runs each: the run-length row of the
  first holds the evaluation counts 10 and 20 and eight NaN entries, the row of the second
  holds no entry. The target provider is constant.
\<close>

definition scenario_target :: "int \<times> int \<Rightarrow> real" where
  "scenario_target fun_dim = 1 / 10"

definition trial_A :: DataSet where
  "trial_A = \<lparr>funcId = 1, ds_dim = 5, nbRuns = 10,
              detEvals = (\<lambda>t. [Fin 10, Fin 20] @ replicate 8 NaN), funvals = []\<rparr>"

definition trial_B :: DataSet where
  "trial_B = \<lparr>funcId = 1, ds_dim = 5, nbRuns = 10, detEvals = (\<lambda>t. []), funvals = []\<rparr>"

text \<open>
  Two records of different functions, used as a concrete input: with a cap of 5 evaluations
  per dimension the first function is solved (run lengths 2 and 4) and the second is not
  (run length 20).
\<close>

definition record_f1 :: DataSet where
  "record_f1 = \<lparr>funcId = 1, ds_dim = 5, nbRuns = 3,
                detEvals = (\<lambda>t. [Fin 10, NaN, Fin 20]), funvals = []\<rparr>"

definition record_f2 :: DataSet where
  "record_f2 = \<lparr>funcId = 2, ds_dim = 5, nbRuns = 2,
                detEvals = (\<lambda>t. [Fin 100, NaN]), funvals = []\<rparr>"

text \<open>
  A record with three function-value rows, at 1, 5 and 10 evaluations, and a record with
  the single row of gaps \<open>[-2, 0, 3, 5]\<close> of the specification's sixth testable property.
\<close>

definition record_rows :: DataSet where
  "record_rows = \<lparr>funcId = 1, ds_dim = 1, nbRuns = 1, detEvals = (\<lambda>t. []),
                  funvals = [(Fin 1, [Fin 8]), (Fin 5, [Fin 4]), (Fin 10, [Fin 2])]\<rparr>"

definition record_gaps :: DataSet where
  "record_gaps = \<lparr>funcId = 1, ds_dim = 1, nbRuns = 4, detEvals = (\<lambda>t. []),
                  funvals = [(Fin 1, [Fin (- 2), Fin 0, Fin 3, Fin 5])]\<rparr>"

text \<open>
  Two lines as \<open>plotECDF\<close> draws them: a solid step curve through the points of the
  scenario above, and a marker-only step curve ending at the abscissa 3.
\<close>

definition step_line :: line where
  "step_line = \<lparr>drawstyle = ''steps'', linestyle = ''-'', marker = '''',
                 xdata = [2, 4, 4], ydata = [0, 1 / 20, 1 / 10]\<rparr>"

definition marker_line :: line where
  "marker_line = \<lparr>drawstyle = ''steps'', linestyle = ''None'', marker = ''o'',
                   xdata = [2, 3], ydata = [0, 1 / 2]\<rparr>"

text \<open>A store holding one list object, the caller's sequence \<open>[4.0, 2.0]\<close>, at address 0.\<close>

definition caller_store :: store where
  "caller_store = \<lparr>objs = (\<lambda>a. [])(0 := [Fin 4, Fin 2]), fresh = 1\<rparr>"

text \<open>A marker-only step curve whose last abscissa is zero.\<close>

definition zero_marker_line :: line where
  "zero_marker_line = \<lparr>drawstyle = ''steps'', linestyle = ''None'', marker = ''o'',
                        xdata = [0], ydata = [0]\<rparr>"

text \<open>A record whose run-length row holds an infinite entry and a NaN.\<close>

definition record_inf :: DataSet where
  "record_inf = \<lparr>funcId = 1, ds_dim = 5, nbRuns = 2,
                 detEvals = (\<lambda>t. [PInf, NaN]), funvals = []\<rparr>"

section \<open>Auxiliary facts\<close>

lemma sorted_wrt_fl_le: "NaN \<notin> set xs \<Longrightarrow> sorted_wrt fl_le xs = sorted xs"
  by (induction xs) (auto simp: fl_le_def)

lemma sorted_last_max: "sorted xs \<Longrightarrow> v \<in> set xs \<Longrightarrow> v \<le> last xs"
  by (induction xs) auto

lemma sorted_snoc_last: "sorted (xs::'a::linorder list) \<Longrightarrow> sorted (xs @ [last xs])"
  by (auto simp: sorted_append sorted_last_max)

lemma last_sort_Max: "x \<noteq> [] \<Longrightarrow> last (sort x) = Max (set x)"
proof -
  assume ne: "x \<noteq> []"
  have "sort x \<noteq> []" using ne by (metis length_0_conv length_sort)
  then have "last (sort x) \<in> set x" using last_in_set by fastforce
  moreover have "\<forall>v\<in>set x. v \<le> last (sort x)"
    using sorted_last_max[of "sort x"] by simp
  ultimately show ?thesis by (intro Max_eqI[symmetric]) auto
qed

lemma sorted_map_upt:
  fixes f :: "nat \<Rightarrow> real"
  assumes "\<And>i j. i \<le> j \<Longrightarrow> f i \<le> f j"
  shows "sorted (map f [0..<k])"
  by (induction k) (auto simp: sorted_append assms)

lemma plotECDF_nonempty:
  assumes "count_n \<noteq> 0" "x \<noteq> []" "count_n = (case n_arg of None \<Rightarrow> int (length x) | Some m \<Rightarrow> m)"
  shows "plotECDF x n_arg = (sort x @ [Max (set x)], map (\<lambda>i. real i / real_of_int count_n) [0..<Suc (length x)])"
  using assms by (simp add: plotECDF_def Let_def last_sort_Max)

lemma rld_step_eq:
  "rld_step target cap (x, nn, fs, fu) ds =
     (x @ rld_tmp target ds, nn + nbRuns ds,
      (if list_ex (\<lambda>v. fl_le v cap) (rld_tmp target ds) then insert (funcId ds) fs else fs),
      insert (funcId ds) fu)"
  by (auto simp: Let_def list_ex_iff filter_empty_conv)

lemma rld_foldl:
  "foldl (rld_step target cap) (x, nn, fs, fu) dsList =
     (x @ concat (map (rld_tmp target) dsList),
      nn + sum_list (map nbRuns dsList),
      fs \<union> set (map funcId (filter (\<lambda>ds. list_ex (\<lambda>v. fl_le v cap) (rld_tmp target ds)) dsList)),
      fu \<union> set (map funcId dsList))"
proof (induction dsList arbitrary: x nn fs fu)
  case Nil
  then show ?case by simp
next
  case (Cons ds dsList)
  show ?case
    by (simp add: Cons.IH rld_step_eq del: rld_step.simps)
qed

lemma rld_loop_closed:
  "rld_loop target cap dsList =
     (concat (map (rld_tmp target) dsList),
      sum_list (map nbRuns dsList),
      set (map funcId (filter (\<lambda>ds. list_ex (\<lambda>v. fl_le v cap) (rld_tmp target ds)) dsList)),
      set (map funcId dsList))"
  by (simp add: rld_loop_def rld_foldl)

lemma fmt_d_1: "fmt_d (Suc 0) = ''1''"
  by (simp add: fmt_d.simps digit_def)

lemma fl_div_isnan: "d \<noteq> 0 \<Longrightarrow> fl_isnan (fl_div v (Fin d)) = fl_isnan v"
  by (cases v) (auto simp: fl_isnan_def)

lemma rld_tmp_alt:
  "ds_dim ds \<noteq> 0 \<Longrightarrow>
   rld_tmp target ds =
     map (\<lambda>v. fl_div v (Fin (real_of_int (ds_dim ds))))
         (filter (\<lambda>v. \<not> fl_isnan v) (detEvals ds (target (funcId ds, ds_dim ds))))"
  by (simp add: rld_tmp_def filter_map comp_def fl_div_isnan)

lemma plotECDF_store_curve:
  "fst (plotECDF_store x n_arg s) = plotECDF (objs s x) n_arg"
  by (simp add: plotECDF_store_def plotECDF_def alloc_def Let_def)

lemma plotECDF_store_frame:
  "p < fresh s \<Longrightarrow> objs (snd (plotECDF_store x n_arg s)) p = objs s p"
  by (simp add: plotECDF_store_def alloc_def Let_def)

lemma select_row_find:
  "select_row bound j rows =
     (case find (\<lambda>r. fl_le bound (fst r)) rows of
        Some r \<Rightarrow> Some r
      | None \<Rightarrow> (if rows = [] then j else Some (last rows)))"
  by (induction rows arbitrary: j) (auto split: option.splits)

lemma select_row_nonempty:
  "rows \<noteq> [] \<Longrightarrow> select_row bound j rows = Some (first_row_reaching bound rows)"
  by (simp add: select_row_find first_row_reaching_def split: option.split)

lemma clamp_Fixed:
  "clamp tmp (Fixed t) =
     map (\<lambda>v. if fl_le v (Fin 0) then (if 0 < t then Fin 1 else Fin 0) else v) tmp"
  by (simp add: clamp_def clamp_value_def min_bool_def list_all_iff)

lemma fvd_step_nonempty:
  assumes "funvals i \<noteq> []" and "divisor target (funcId i) = Inr t"
  shows "fvd_step target maxEvalsF (x, nn, j) i =
           Inr (x @ fvd_tmp target maxEvalsF t i, nn + nbRuns i,
                Some (first_row_reaching (fl_mul maxEvalsF (Fin (real_of_int (ds_dim i)))) (funvals i)))"
  using assms by (simp add: select_row_nonempty fvd_tmp_def)

lemma fvd_loop_nonempty:
  assumes "list_all (\<lambda>i. funvals i \<noteq> [] \<and> divisor target (funcId i) = Inr (d i)) dsList"
  shows "\<exists>j'. fvd_loop target maxEvalsF (x, nn, j) dsList =
           Inr (x @ concat (map (\<lambda>i. fvd_tmp target maxEvalsF (d i) i) dsList),
                nn + sum_list (map nbRuns dsList), j')"
  using assms
proof (induction dsList arbitrary: x nn j)
  case Nil
  then show ?case by simp
next
  case (Cons i dsList)
  have a: "funvals i \<noteq> []" and b: "divisor target (funcId i) = Inr (d i)"
    and c: "list_all (\<lambda>i. funvals i \<noteq> [] \<and> divisor target (funcId i) = Inr (d i)) dsList"
    using Cons.prems by simp_all
  obtain j' where
    "fvd_loop target maxEvalsF
       (x @ fvd_tmp target maxEvalsF (d i) i, nn + nbRuns i,
        Some (first_row_reaching (fl_mul maxEvalsF (Fin (real_of_int (ds_dim i)))) (funvals i))) dsList
     = Inr ((x @ fvd_tmp target maxEvalsF (d i) i) @ concat (map (\<lambda>i. fvd_tmp target maxEvalsF (d i) i) dsList),
            (nn + nbRuns i) + sum_list (map nbRuns dsList), j')"
    using Cons.IH[OF c] by blast
  then show ?case
    by (simp add: fvd_step_nonempty[OF a b] add.assoc del: fvd_step.simps)
qed

lemma py_max_foldl:
  "foldl (\<lambda>m w. if m < w then w else m) (v::real) vs = Max (insert v (set vs))"
proof -
  have f: "(\<lambda>w m. if m < w then w else m) = (max :: real \<Rightarrow> real \<Rightarrow> real)"
    by (auto simp: fun_eq_iff max_def)
  have "foldl (\<lambda>m w. if m < w then w else m) v vs = fold max vs v"
    by (simp add: foldl_conv_fold f[symmetric])
  also have "\<dots> = Max (set (v # vs))"
    by (simp only: Max.set_eq_fold)
  finally show ?thesis by simp
qed

lemma py_max_Max: "vs \<noteq> [] \<Longrightarrow> py_max vs = Max (set vs)"
  by (cases vs) (simp_all add: py_max_foldl)

lemma grid_iff:
  fixes a b :: real and nb m :: int
  assumes "0 < a" and "0 < b" and "0 < nb"
  shows "(\<lceil>log 10 a * real_of_int nb\<rceil> \<le> m \<and> m \<le> \<lfloor>log 10 b * real_of_int nb\<rfloor>)
       = (a \<le> 10 powr (real_of_int m / real_of_int nb) \<and> 10 powr (real_of_int m / real_of_int nb) \<le> b)"
proof -
  have nb: "0 < real_of_int nb" using assms(3) by simp
  have "(\<lceil>log 10 a * real_of_int nb\<rceil> \<le> m) = (log 10 a * real_of_int nb \<le> real_of_int m)"
    by (simp add: ceiling_le_iff)
  also have "\<dots> = (log 10 a \<le> real_of_int m / real_of_int nb)"
    using nb by (simp add: pos_le_divide_eq)
  also have "\<dots> = (a \<le> 10 powr (real_of_int m / real_of_int nb))"
    using assms(1) by (simp add: log_le_iff)
  finally have lo: "(\<lceil>log 10 a * real_of_int nb\<rceil> \<le> m) = (a \<le> 10 powr (real_of_int m / real_of_int nb))" .
  have "(m \<le> \<lfloor>log 10 b * real_of_int nb\<rfloor>) = (real_of_int m \<le> log 10 b * real_of_int nb)"
    by (simp add: le_floor_iff)
  also have "\<dots> = (real_of_int m / real_of_int nb \<le> log 10 b)"
    using nb by (simp add: pos_divide_le_eq)
  also have "\<dots> = (10 powr (real_of_int m / real_of_int nb) \<le> b)"
    using assms(2) by (simp add: le_log_iff)
  finally have hi: "(m \<le> \<lfloor>log 10 b * real_of_int nb\<rfloor>) = (10 powr (real_of_int m / real_of_int nb) \<le> b)" .
  show ?thesis by (simp add: lo hi)
qed

lemma marker_positions_set:
  assumes "0 < a" and "0 < b" and "0 < nb"
  shows "set (marker_positions nb a b) =
           {p. \<exists>m::int. p = 10 powr (real_of_int m / real_of_int nb) \<and> a \<le> p \<and> p \<le> b}"
proof -
  have "set (marker_positions nb a b) =
          (\<lambda>m. 10 powr (real_of_int m / real_of_int nb)) ` {m. \<lceil>log 10 a * real_of_int nb\<rceil> \<le> m \<and> m \<le> \<lfloor>log 10 b * real_of_int nb\<rfloor>}"
    by (auto simp: marker_positions_def Let_def)
  also have "\<dots> = {p. \<exists>m::int. p = 10 powr (real_of_int m / real_of_int nb) \<and> a \<le> p \<and> p \<le> b}"
    unfolding grid_iff[OF assms] by auto
  finally show ?thesis .
qed

lemma marker_positions_increasing:
  assumes "0 < nb"
  shows "sorted_wrt (<) (marker_positions nb a b)"
proof -
  have "sorted_wrt (<) [i..j]" for i j :: int
    by (simp add: sorted_wrt_iff_nth_less)
  then have "sorted_wrt (\<lambda>x y. 10 powr (real_of_int x / real_of_int nb) < 10 powr (real_of_int y / real_of_int nb)) [i..j]" for i j :: int
    by (rule sorted_wrt_mono_rel[rotated]) (use assms in \<open>simp add: divide_strict_right_mono\<close>)
  then show ?thesis
    by (simp add: marker_positions_def Let_def sorted_wrt_map)
qed

lemma marker_positions_3_150: "marker_positions 1 3 150 = [10, 100]"
proof -
  have a: "\<lceil>log 10 3 :: real\<rceil> = 1"
    by (simp add: ceiling_eq_iff)
  have "(10::real) powr 2 \<le> 150" "(150::real) < 10 powr 3"
    by simp_all
  then have "2 \<le> log 10 150" "log 10 150 < (3::real)"
    by (simp_all add: le_log_iff log_less_iff del: powr_numeral)
  then have b: "\<lfloor>log 10 150 :: real\<rfloor> = 2"
    by (simp add: floor_eq_iff)
  have u: "[1..2::int] = [1, 2]" by (simp add: upto.simps)
  show ?thesis
    by (simp add: marker_positions_def a b u)
qed

lemma extend_children_nth:
  "k < length c \<Longrightarrow> fst (extend_children nb xmax (take k c)) = None \<Longrightarrow>
   c ! k = Line2D l \<Longrightarrow> extend_line nb xmax l = Inr l' \<Longrightarrow>
   snd (extend_children nb xmax c) ! k = Line2D l'"
proof (induction c arbitrary: k)
  case Nil
  then show ?case by simp
next
  case (Cons ch c)
  show ?case
  proof (cases k)
    case 0
    then show ?thesis using Cons.prems by (simp add: case_prod_unfold)
  next
    case (Suc j)
    have j: "j < length c" and cj: "c ! j = Line2D l"
      using Cons.prems Suc by simp_all
    show ?thesis
    proof (cases ch)
      case Other
      then have "fst (extend_children nb xmax (take j c)) = None"
        using Cons.prems(2) Suc by (simp add: case_prod_unfold)
      then have "snd (extend_children nb xmax c) ! j = Line2D l'"
        using Cons.IH[OF j _ cj Cons.prems(4)] by simp
      then show ?thesis using Other Suc by (simp add: case_prod_unfold)
    next
      case (Line2D m)
      show ?thesis
      proof (cases "extend_line nb xmax m")
        case (Inl e)
        then show ?thesis using Cons.prems(2) Suc Line2D by simp
      next
        case (Inr m')
        then have "fst (extend_children nb xmax (take j c)) = None"
          using Cons.prems(2) Suc Line2D by (simp add: case_prod_unfold)
        then have "snd (extend_children nb xmax c) ! j = Line2D l'"
          using Cons.IH[OF j _ cj Cons.prems(4)] by simp
        then show ?thesis using Line2D Inr Suc by (simp add: case_prod_unfold)
      qed
    qed
  qed
qed

lemma beautify_nth:
  "k < length c \<Longrightarrow> fst (extend_children nbperdecade xmax (take k c)) = None \<Longrightarrow>
   c ! k = Line2D l \<Longrightarrow> extend_line nbperdecade xmax l = Inr l' \<Longrightarrow>
   snd (snd (beautifyECDF ((xmin, xmax), c))) ! k = Line2D l'"
  using extend_children_nth[of k c nbperdecade xmax l l']
  by (simp add: beautifyECDF_def case_prod_unfold)

lemma extend_line_continuous:
  assumes "drawstyle l = ''steps''" and "linestyle l \<notin> {'''', ''None''}"
    and "xdata l \<noteq> []" and "ydata l \<noteq> []"
  shows "extend_line nb xmax l =
           Inr (if Max (set (xdata l)) < xmax
                then l\<lparr>xdata := xdata l @ [xmax], ydata := ydata l @ [last (ydata l)]\<rparr>
                else l)"
  using assms by (simp add: extend_line_def py_max_Max)

lemma extend_line_markers:
  assumes "drawstyle l = ''steps''" and "marker l \<noteq> ''''" and "linestyle l \<in> {'''', ''None''}"
    and "xdata l \<noteq> []" and "ydata l \<noteq> []"
    and "0 < last (xdata l)" and "Max (set (xdata l)) < xmax"
  shows "extend_line nb xmax l =
           Inr (l\<lparr>xdata := xdata l @ marker_positions nb (last (xdata l)) xmax,
                  ydata := ydata l @ replicate (length (marker_positions nb (last (xdata l)) xmax))
                                        (last (ydata l))\<rparr>)"
  using assms by (auto simp: extend_line_def py_max_Max Let_def)

lemma set_evalfmax_True: "set_evalfmax True f e = (if truthy e then e else Some f)"
  by (simp add: set_evalfmax_def runlen_xlimits_max_def)

lemma set_evalfmax_False: "set_evalfmax False f e = Some f"
  by (simp add: set_evalfmax_def runlen_xlimits_max_def)

lemma main_True_stored:
  "truthy e \<Longrightarrow> main True factors e = (replicate (length factors) e, e)"
  by (induction factors) (simp_all add: set_evalfmax_True Let_def)

lemma main_False:
  "main False factors e = (map Some factors, if factors = [] then e else Some (last factors))"
  by (induction factors arbitrary: e) (simp_all add: set_evalfmax_False Let_def)

section \<open>The ECDF builder: contract and invariants\<close>

text \<open>
  Claim C1. For a sample sequence \<open>x\<close> of length \<open>nx\<close> and a total count \<open>n\<close>
  (the length of \<open>x\<close> when none is given), \<open>plotECDF\<close> produces the empty curve when
  \<open>n = 0\<close> or \<open>nx = 0\<close>. Otherwise the abscissae are \<open>x\<close> sorted ascending (the same
  values with the same multiplicities) followed by a copy of the maximum, and the ordinates
  are \<open>i / n\<close> at the positions \<open>i = 0 .. nx - 1\<close> followed by \<open>nx / n\<close>. The function
  leaves the list object that the caller passed as it was.
\<close>

theorem plotECDF_contract:
  assumes "list_all (\<lambda>v. \<not> fl_isnan v) x"
    and "n = (case n_arg of None \<Rightarrow> int (length x) | Some m \<Rightarrow> m)"
    and "p < fresh s" and "objs s p = x"
    and "plotECDF_store p n_arg s = ((xs, ys), s')"
  shows "(if n = 0 \<or> length x = 0 then xs = [] \<and> ys = []
          else length xs = length x + 1 \<and> sorted_wrt fl_le (butlast xs) \<and> mset (butlast xs) = mset x
             \<and> last xs = Max (set x) \<and> list_all (\<lambda>v. fl_le v (last xs)) x
             \<and> length ys = length x + 1 \<and> list_all (\<lambda>i. ys ! i = real i / real_of_int n) [0..<length x]
             \<and> last ys = real (length x) / real_of_int n)
       \<and> objs s' p = x \<and> plotECDF x n_arg = (xs, ys)"
proof -
  have curve: "plotECDF x n_arg = (xs, ys)"
    using plotECDF_store_curve[of p n_arg s] assms(4,5) by simp
  have frame: "objs s' p = x"
    using plotECDF_store_frame[OF assms(3), of p n_arg] assms(4,5) by simp
  have shape: "if n = 0 \<or> length x = 0 then xs = [] \<and> ys = []
          else length xs = length x + 1 \<and> sorted_wrt fl_le (butlast xs) \<and> mset (butlast xs) = mset x
             \<and> last xs = Max (set x) \<and> list_all (\<lambda>v. fl_le v (last xs)) x
             \<and> length ys = length x + 1 \<and> list_all (\<lambda>i. ys ! i = real i / real_of_int n) [0..<length x]
             \<and> last ys = real (length x) / real_of_int n"
  proof (cases "n = 0 \<or> length x = 0")
    case True
    then show ?thesis using assms(2) curve by (auto simp: plotECDF_def Let_def)
  next
    case False
    then have n0: "n \<noteq> 0" and ne: "x \<noteq> []" by auto
    have nonan: "NaN \<notin> set x" using assms(1) by (auto simp: list_all_iff fl_isnan_def)
    have eq: "xs = sort x @ [Max (set x)]" "ys = map (\<lambda>i. real i / real_of_int n) [0..<Suc (length x)]"
      using plotECDF_nonempty[OF n0 ne assms(2)] curve by simp_all
    have mx: "Max (set x) \<in> set x" using ne by (simp add: Max_in)
    have "sorted_wrt fl_le (sort x)" using nonan by (simp add: sorted_wrt_fl_le)
    moreover have "list_all (\<lambda>v. fl_le v (Max (set x))) x"
      using nonan mx by (auto simp: list_all_iff fl_le_def)
    moreover have "list_all (\<lambda>i. ys ! i = real i / real_of_int n) [0..<length x]"
      unfolding eq list_all_iff by (auto simp: nth_append simp del: upt_Suc)
    moreover have "last ys = real (length x) / real_of_int n" unfolding eq by simp
    ultimately show ?thesis using False eq by simp
  qed
  show ?thesis using shape frame curve by blast
qed

theorem plotECDF_contract_witness:
  "list_all (\<lambda>v. \<not> fl_isnan v) [Fin 4, Fin 2]
   \<and> 0 < fresh caller_store \<and> objs caller_store 0 = [Fin 4, Fin 2]
   \<and> fst (plotECDF_store 0 (Some 20) caller_store) = ([Fin 2, Fin 4, Fin 4], [0, 1 / 20, 2 / 20])
   \<and> sorted_wrt fl_le (butlast [Fin 2, Fin 4, Fin 4]) \<and> last [Fin 2, Fin 4, Fin 4] = Max (set [Fin 4, Fin 2])
   \<and> objs (snd (plotECDF_store 0 (Some 20) caller_store)) 0 = [Fin 4, Fin 2]"
proof -
  have h1: "list_all (\<lambda>v. \<not> fl_isnan v) [Fin 4, Fin 2]" by (simp add: fl_isnan_def)
  have h2: "(20::int) = (case Some 20 of None \<Rightarrow> int (length [Fin 4, Fin 2]) | Some m \<Rightarrow> m)" by simp
  have h3: "0 < fresh caller_store" by (simp add: caller_store_def)
  have h4: "objs caller_store 0 = [Fin 4, Fin 2]" by (simp add: caller_store_def)
  have c: "fst (plotECDF_store 0 (Some 20) caller_store) = ([Fin 2, Fin 4, Fin 4], [0, 1 / 20, 2 / 20])"
    by (simp add: plotECDF_store_curve h4 plotECDF_def less_eq_fl_def)
  have h5: "plotECDF_store 0 (Some 20) caller_store
              = (([Fin 2, Fin 4, Fin 4], [0, 1 / 20, 2 / 20]), snd (plotECDF_store 0 (Some 20) caller_store))"
    using c by (simp add: prod_eq_iff)
  show ?thesis
    using plotECDF_contract[OF h1 h2 h3 h4 h5] h1 h3 h4 c by simp
qed

text \<open>
  Claim C5. For finite samples and a total count \<open>n\<close> with \<open>n \<ge> len(x)\<close> and
  \<open>n > 0\<close>, the abscissae of the curve are non-decreasing, and the ordinates are
  non-decreasing and lie in \<open>[0, 1]\<close>.
\<close>

theorem plotECDF_monotone_bounded:
  assumes "list_all fl_isfinite x" and "int (length x) \<le> n" and "0 < n"
  shows "sorted_wrt fl_le (fst (plotECDF x (Some n)))
       \<and> sorted (snd (plotECDF x (Some n)))
       \<and> list_all (\<lambda>y. 0 \<le> y \<and> y \<le> 1) (snd (plotECDF x (Some n)))"
proof (cases "x = []")
  case True
  then show ?thesis by (simp add: plotECDF_def)
next
  case False
  have nonan: "NaN \<notin> set x" using assms(1) by (auto simp: list_all_iff fl_isfinite_def)
  have n0: "n \<noteq> 0" using assms(3) by simp
  have eq: "plotECDF x (Some n) = (sort x @ [Max (set x)], map (\<lambda>i. real i / real_of_int n) [0..<Suc (length x)])"
    using plotECDF_nonempty[OF n0 False] by simp
  have "Max (set x) \<in> set x" using False by (simp add: Max_in)
  then have nonan': "NaN \<notin> set (sort x @ [Max (set x)])" using nonan by auto
  have "sorted (sort x @ [Max (set x)])"
    using sorted_snoc_last[of "sort x"] False by (simp add: last_sort_Max)
  then have a: "sorted_wrt fl_le (sort x @ [Max (set x)])"
    using sorted_wrt_fl_le[OF nonan'] by simp
  have b: "sorted (map (\<lambda>i. real i / real_of_int n) [0..<Suc (length x)])"
    by (rule sorted_map_upt) (use assms(3) in \<open>simp add: divide_right_mono\<close>)
  have c: "list_all (\<lambda>y. 0 \<le> y \<and> y \<le> 1) (map (\<lambda>i. real i / real_of_int n) [0..<Suc (length x)])"
    unfolding list_all_iff using assms(2,3) by (auto simp del: upt_Suc)
  show ?thesis unfolding eq using a b c by simp
qed

theorem plotECDF_monotone_bounded_witness:
  "list_all fl_isfinite [Fin 4, Fin 2] \<and> int (length [Fin 4, Fin 2]) \<le> 20 \<and> (0::int) < 20
   \<and> sorted_wrt fl_le (fst (plotECDF [Fin 4, Fin 2] (Some 20)))
   \<and> sorted (snd (plotECDF [Fin 4, Fin 2] (Some 20)))
   \<and> list_all (\<lambda>y. 0 \<le> y \<and> y \<le> 1) (snd (plotECDF [Fin 4, Fin 2] (Some 20)))"
proof -
  have h1: "list_all fl_isfinite [Fin 4, Fin 2]" by (simp add: fl_isfinite_def)
  have h2: "int (length [Fin 4, Fin 2]) \<le> 20" by simp
  have h3: "(0::int) < 20" by simp
  show ?thesis using plotECDF_monotone_bounded[OF h1 h2 h3] h1 by simp
qed

section \<open>The run-length aggregator: sample, count and label\<close>

text \<open>
  Claim C6, as amended. \<open>plotRLDistr\<close> divides the run-length row of every record (at
  the target of the provider) by the dimension of the record, discards the NaN entries,
  accumulates the surviving values of all records, in order, into the sample and adds
  \<open>nbRuns()\<close> to the total count \<open>n\<close>; the curve is the ECDF of that sample and count.
  It appends \<open>': s/t'\<close> to the label, where \<open>s\<close> is the number of distinct function IDs
  with at least one surviving value not exceeding the cap \<open>max_fun_evals\<close> and \<open>t\<close> the
  number of distinct function IDs encountered.
\<close>

theorem plotRLDistr_aggregation:
  "plotRLDistr dsList target label cap None =
     (plotECDF (nan_sample target dsList) (Some (spec_count dsList)),
      label @ '': '' @ fmt_d (nan_solved target cap dsList) @ ''/'' @ fmt_d (spec_total dsList))
   \<and> fst (rld_loop target cap dsList) = nan_sample target dsList
   \<and> fst (snd (rld_loop target cap dsList)) = spec_count dsList"
proof -
  have "rld_tmp target = nan_survivors target"
    by (simp add: fun_eq_iff rld_tmp_def nan_survivors_def)
  then show ?thesis
    unfolding plotRLDistr_def rld_loop_closed
    by (simp add: nan_sample_def spec_count_def nan_solved_def spec_total_def)
qed

theorem plotRLDistr_aggregation_witness:
  "plotRLDistr [record_f1, record_f2] scenario_target ''1e-01'' (Fin 5) None
       = (([Fin 2, Fin 4, Fin 20, Fin 20], [0, 1 / 5, 2 / 5, 3 / 5]), ''1e-01: 1/2'')
   \<and> nan_sample scenario_target [record_f1, record_f2] = [Fin 2, Fin 4, Fin 20]
   \<and> spec_count [record_f1, record_f2] = 5"
proof -
  have s1: "nan_survivors scenario_target record_f1 = [Fin 2, Fin 4]"
    by (simp add: nan_survivors_def record_f1_def fl_isnan_def)
  have s2: "nan_survivors scenario_target record_f2 = [Fin 20]"
    by (simp add: nan_survivors_def record_f2_def fl_isnan_def)
  have sample: "nan_sample scenario_target [record_f1, record_f2] = [Fin 2, Fin 4, Fin 20]"
    by (simp add: nan_sample_def s1 s2)
  have count: "spec_count [record_f1, record_f2] = 5"
    by (simp add: spec_count_def record_f1_def record_f2_def)
  have "filter (\<lambda>ds. list_ex (\<lambda>v. fl_le v (Fin 5)) (nan_survivors scenario_target ds))
          [record_f1, record_f2] = [record_f1]"
    by (simp add: s1 s2 fl_le_def less_eq_fl_def)
  then have solved: "nan_solved scenario_target (Fin 5) [record_f1, record_f2] = Suc 0"
    by (simp add: nan_solved_def)
  have total: "spec_total [record_f1, record_f2] = Suc (Suc 0)"
    by (simp add: spec_total_def record_f1_def record_f2_def)
  have two: "fmt_d (Suc (Suc 0)) = ''2''"
    by (simp add: fmt_d.simps digit_def)
  have curve: "plotECDF [Fin 2, Fin 4, Fin 20] (Some 5)
                 = ([Fin 2, Fin 4, Fin 20, Fin 20], [0, 1 / 5, 2 / 5, 3 / 5])"
    by (simp add: plotECDF_def less_eq_fl_def)
  show ?thesis
    using plotRLDistr_aggregation[of "[record_f1, record_f2]" scenario_target "''1e-01''" "Fin 5"]
    by (simp add: sample count solved total two fmt_d_1 curve)
qed

text \<open>
  The entries that are discarded are the NaN entries, not all non-finite ones: a row with
  an infinite entry puts it into the sample and, under the default cap, counts its function
  as solved, where the description with the finite entries gives an empty sample and no
  solved function.
\<close>

theorem plotRLDistr_infinite_counterexample:
  "plotRLDistr [record_inf] scenario_target ''1e-01'' PInf None
     \<noteq> (plotECDF (spec_sample scenario_target [record_inf]) (Some (spec_count [record_inf])),
         ''1e-01: '' @ fmt_d (spec_solved scenario_target PInf [record_inf])
           @ ''/'' @ fmt_d (spec_total [record_inf]))
   \<and> plotRLDistr [record_inf] scenario_target ''1e-01'' PInf None
       = (([PInf, PInf], [0, 1 / 2]), ''1e-01: 1/1'')
   \<and> fst (rld_loop scenario_target PInf [record_inf]) = [PInf]
   \<and> spec_sample scenario_target [record_inf] = []
   \<and> spec_solved scenario_target PInf [record_inf] = 0"
proof -
  have t: "rld_tmp scenario_target record_inf = [PInf]"
    by (simp add: rld_tmp_def record_inf_def fl_isnan_def)
  have s: "spec_survivors scenario_target record_inf = []"
    by (simp add: spec_survivors_def record_inf_def fl_isfinite_def)
  have f: "funcId record_inf = 1" "nbRuns record_inf = 2"
    by (simp_all add: record_inf_def)
  have loop: "rld_loop scenario_target PInf [record_inf] = ([PInf], 2, {1}, {1})"
    by (simp add: rld_loop_def rld_step_eq t f fl_le_def del: rld_step.simps)
  have code: "plotRLDistr [record_inf] scenario_target ''1e-01'' PInf None
       = (([PInf, PInf], [0, 1 / 2]), ''1e-01: 1/1'')"
    by (simp add: plotRLDistr_def loop plotECDF_def fmt_d_1)
  have sample: "spec_sample scenario_target [record_inf] = []"
    by (simp add: spec_sample_def s)
  have solved: "spec_solved scenario_target PInf [record_inf] = 0"
    by (simp add: spec_solved_def s)
  show ?thesis
    by (simp add: code loop sample solved plotECDF_def)
qed

text \<open>
  Claim C10. The sample that \<open>plotRLDistr\<close> hands to the ECDF builder is the list of the
  entries of all rows, divided by the dimension, that are not NaN, and the total count is
  the sum of \<open>nbRuns()\<close>: neither mentions the cap \<open>max_fun_evals\<close>. The finite entries
  of the sample are all the finite normalised run lengths of all records, in order and with
  their multiplicities, whether or not they exceed the cap; the curve is the same for any
  two caps.
\<close>

theorem plotRLDistr_cap:
  "fst (plotRLDistr dsList target label cap pl)
     = plotECDF (nan_sample target dsList) (Some (spec_count dsList))
   \<and> fst (rld_loop target cap dsList) = nan_sample target dsList
   \<and> fst (snd (rld_loop target cap dsList)) = spec_count dsList
   \<and> filter fl_isfinite (nan_sample target dsList) = spec_sample target dsList
   \<and> fst (plotRLDistr dsList target label cap pl) = fst (plotRLDistr dsList target label cap' pl)"
proof -
  have e: "rld_tmp target = nan_survivors target"
    by (simp add: fun_eq_iff rld_tmp_def nan_survivors_def)
  have f: "filter fl_isfinite (nan_survivors target ds) = spec_survivors target ds" for ds
    unfolding nan_survivors_def spec_survivors_def filter_filter
    by (rule filter_cong) (auto simp: fl_isfinite_def fl_isnan_def)
  have "filter fl_isfinite (nan_sample target dsList) = spec_sample target dsList"
    by (simp add: nan_sample_def spec_sample_def filter_concat comp_def f)
  then show ?thesis
    by (simp add: plotRLDistr_def rld_loop_closed e nan_sample_def spec_count_def)
qed

theorem plotRLDistr_cap_witness:
  "fst (plotRLDistr [record_f1, record_f2] scenario_target ''1e-01'' (Fin 5) None)
       = ([Fin 2, Fin 4, Fin 20, Fin 20], [0, 1 / 5, 2 / 5, 3 / 5])
   \<and> fst (plotRLDistr [record_f1, record_f2] scenario_target ''1e-01'' PInf None)
       = ([Fin 2, Fin 4, Fin 20, Fin 20], [0, 1 / 5, 2 / 5, 3 / 5])
   \<and> fst (rld_loop scenario_target (Fin 5) [record_f1, record_f2]) = [Fin 2, Fin 4, Fin 20]
   \<and> spec_sample scenario_target [record_f1, record_f2] = [Fin 2, Fin 4, Fin 20]
   \<and> fl_lt (Fin 5) (Fin 20)"
proof -
  have s1: "nan_survivors scenario_target record_f1 = [Fin 2, Fin 4]"
    by (simp add: nan_survivors_def record_f1_def fl_isnan_def)
  have s2: "nan_survivors scenario_target record_f2 = [Fin 20]"
    by (simp add: nan_survivors_def record_f2_def fl_isnan_def)
  have sample: "nan_sample scenario_target [record_f1, record_f2] = [Fin 2, Fin 4, Fin 20]"
    by (simp add: nan_sample_def s1 s2)
  have count: "spec_count [record_f1, record_f2] = 5"
    by (simp add: spec_count_def record_f1_def record_f2_def)
  have curve: "plotECDF [Fin 2, Fin 4, Fin 20] (Some 5)
                 = ([Fin 2, Fin 4, Fin 20, Fin 20], [0, 1 / 5, 2 / 5, 3 / 5])"
    by (simp add: plotECDF_def less_eq_fl_def)
  have lt: "fl_lt (Fin 5) (Fin 20)" by (simp add: fl_lt_def less_fl_def)
  note th = plotRLDistr_cap[of "[record_f1, record_f2]" scenario_target "''1e-01''" "Fin 5" None PInf]
  from th have "fst (plotRLDistr [record_f1, record_f2] scenario_target ''1e-01'' (Fin 5) None)
       = plotECDF (nan_sample scenario_target [record_f1, record_f2])
           (Some (spec_count [record_f1, record_f2]))"
    by blast
  then have c5: "fst (plotRLDistr [record_f1, record_f2] scenario_target ''1e-01'' (Fin 5) None)
       = ([Fin 2, Fin 4, Fin 20, Fin 20], [0, 1 / 5, 2 / 5, 3 / 5])"
    unfolding sample count curve .
  from th have "fst (plotRLDistr [record_f1, record_f2] scenario_target ''1e-01'' (Fin 5) None)
       = fst (plotRLDistr [record_f1, record_f2] scenario_target ''1e-01'' PInf None)"
    by blast
  then have cInf: "fst (plotRLDistr [record_f1, record_f2] scenario_target ''1e-01'' PInf None)
       = ([Fin 2, Fin 4, Fin 20, Fin 20], [0, 1 / 5, 2 / 5, 3 / 5])"
    using c5 by simp
  from th have "fst (rld_loop scenario_target (Fin 5) [record_f1, record_f2])
       = nan_sample scenario_target [record_f1, record_f2]"
    by blast
  then have l: "fst (rld_loop scenario_target (Fin 5) [record_f1, record_f2]) = [Fin 2, Fin 4, Fin 20]"
    unfolding sample .
  from th have "filter fl_isfinite (nan_sample scenario_target [record_f1, record_f2])
       = spec_sample scenario_target [record_f1, record_f2]"
    by blast
  then have sp: "spec_sample scenario_target [record_f1, record_f2] = [Fin 2, Fin 4, Fin 20]"
    unfolding sample by (simp add: fl_isfinite_def)
  show ?thesis
    using c5 cInf l sp lt by blast
qed

text \<open>
  Claim C4, as amended. Two records of one function in dimension 5 with 10 runs each,
  whose run-length rows hold the evaluation counts 10 and 20 and otherwise only NaN
  entries, give the sample \<open>[2.0, 4.0]\<close> with \<open>n = 20\<close>, the curve through
  \<open>(2.0, 0)\<close>, \<open>(4.0, 1/20)\<close>, \<open>(4.0, 2/20)\<close> and the label suffix \<open>': 1/1'\<close>. The
  ordinates start at \<open>0 / n\<close>, so the curve is not the one through \<open>(2.0, 1/20)\<close>,
  \<open>(4.0, 2/20)\<close>, \<open>(4.0, 2/20)\<close>.
\<close>

theorem scenario_run_length:
  assumes "funcId a = funcId b" and "ds_dim a = 5" and "ds_dim b = 5"
    and "nbRuns a = 10" and "nbRuns b = 10"
    and "filter (\<lambda>v. \<not> fl_isnan v)
           (detEvals a (target (funcId a, 5)) @ detEvals b (target (funcId b, 5)))
         = [Fin 10, Fin 20]"
  shows "fst (rld_loop target PInf [a, b]) = [Fin 2, Fin 4]
       \<and> fst (snd (rld_loop target PInf [a, b])) = 20
       \<and> plotRLDistr [a, b] target label PInf None
           = (([Fin 2, Fin 4, Fin 4], [0, 1 / 20, 2 / 20]), label @ '': 1/1'')"
proof -
  have tmp: "rld_tmp target a @ rld_tmp target b = [Fin 2, Fin 4]"
    using assms(2,3,6) by (simp add: rld_tmp_alt flip: map_append filter_append)
  have sub: "set (rld_tmp target a) \<subseteq> {Fin 2, Fin 4}" "set (rld_tmp target b) \<subseteq> {Fin 2, Fin 4}"
    using arg_cong[OF tmp, of set] by auto
  have ex: "list_ex (\<lambda>v. fl_le v PInf) ys = (ys \<noteq> [])" if "set ys \<subseteq> {Fin 2, Fin 4}" for ys
    using that by (cases ys) (auto simp: list_ex_iff fl_le_def less_eq_fl_def)
  have ne: "rld_tmp target a \<noteq> [] \<or> rld_tmp target b \<noteq> []"
    using tmp by auto
  have solved: "set (map funcId (filter (\<lambda>ds. list_ex (\<lambda>v. fl_le v PInf) (rld_tmp target ds)) [a, b]))
                  = {funcId a}"
    using ne assms(1) by (auto simp: ex[OF sub(1)] ex[OF sub(2)])
  have loop: "rld_loop target PInf [a, b] = ([Fin 2, Fin 4], 20, {funcId a}, {funcId a})"
    unfolding rld_loop_closed solved using tmp assms(1,4,5) by simp
  have curve: "plotECDF [Fin 2, Fin 4] (Some 20) = ([Fin 2, Fin 4, Fin 4], [0, 1 / 20, 2 / 20])"
    by (simp add: plotECDF_def less_eq_fl_def)
  show ?thesis
    unfolding plotRLDistr_def loop by (simp add: curve fmt_d_1)
qed

theorem scenario_run_length_witness:
  "funcId trial_A = funcId trial_B \<and> ds_dim trial_A = 5 \<and> ds_dim trial_B = 5
   \<and> nbRuns trial_A = 10 \<and> nbRuns trial_B = 10
   \<and> filter (\<lambda>v. \<not> fl_isnan v)
        (detEvals trial_A (scenario_target (funcId trial_A, 5))
         @ detEvals trial_B (scenario_target (funcId trial_B, 5))) = [Fin 10, Fin 20]
   \<and> plotRLDistr [trial_A, trial_B] scenario_target ''1e-01'' PInf None
        = (([Fin 2, Fin 4, Fin 4], [0, 1 / 20, 2 / 20]), ''1e-01: 1/1'')"
proof -
  have h1: "funcId trial_A = funcId trial_B" by (simp add: trial_A_def trial_B_def)
  have h2: "ds_dim trial_A = 5" by (simp add: trial_A_def)
  have h3: "ds_dim trial_B = 5" by (simp add: trial_B_def)
  have h4: "nbRuns trial_A = 10" by (simp add: trial_A_def)
  have h5: "nbRuns trial_B = 10" by (simp add: trial_B_def)
  have h6: "filter (\<lambda>v. \<not> fl_isnan v)
        (detEvals trial_A (scenario_target (funcId trial_A, 5))
         @ detEvals trial_B (scenario_target (funcId trial_B, 5))) = [Fin 10, Fin 20]"
    by (simp add: trial_A_def trial_B_def fl_isnan_def)
  show ?thesis
    using scenario_run_length[OF h1 h2 h3 h4 h5 h6, of "''1e-01''"] h1 h2 h3 h4 h5 h6 by simp
qed

text \<open>
  The curve of the scenario differs from the one the claim C4 lists.
\<close>

theorem scenario_curve_counterexample:
  "fst (plotRLDistr [trial_A, trial_B] scenario_target ''1e-01'' PInf None)
     \<noteq> ([Fin 2, Fin 4, Fin 4], [1 / 20, 2 / 20, 2 / 20])"
proof -
  have "rld_tmp scenario_target trial_A = [Fin 2, Fin 4]"
    by (simp add: rld_tmp_def trial_A_def fl_isnan_def)
  moreover have "rld_tmp scenario_target trial_B = []"
    by (simp add: rld_tmp_def trial_B_def)
  ultimately have "rld_loop scenario_target PInf [trial_A, trial_B]
      = ([Fin 2, Fin 4], 20, {1}, {1})"
    by (simp add: rld_loop_def trial_A_def trial_B_def fl_le_def less_eq_fl_def)
  then show ?thesis
    by (simp add: plotRLDistr_def plotECDF_def less_eq_fl_def)
qed

section \<open>The final-value aggregator: budget row and clamp\<close>

text \<open>
  What the loop of \<open>plotFVDistr\<close> computes. For records with at least one function-value
  row, and a target that yields a divisor for each of them, every record contributes the
  gaps of the first row, in stored order, whose evaluation count is at least
  \<open>maxEvalsF * dim\<close>, or of the last row when no row reaches that count, divided by the
  target precision and clamped; the total count is the sum of \<open>nbRuns()\<close>.
\<close>

theorem plotFVDistr_budget_row:
  assumes "list_all (\<lambda>i. funvals i \<noteq> [] \<and> divisor target (funcId i) = Inr (d i)) dsList"
  shows "plotFVDistr dsList target maxEvalsF =
           Inr (plotECDF (concat (map (\<lambda>i. fvd_tmp target maxEvalsF (d i) i) dsList))
                         (Some (sum_list (map nbRuns dsList))))"
proof -
  obtain j' where "fvd_loop target maxEvalsF ([], 0, None) dsList =
           Inr ([] @ concat (map (\<lambda>i. fvd_tmp target maxEvalsF (d i) i) dsList),
                0 + sum_list (map nbRuns dsList), j')"
    using fvd_loop_nonempty[OF assms] by blast
  then show ?thesis by (simp add: plotFVDistr_def)
qed

theorem plotFVDistr_budget_row_witness:
  "list_all (\<lambda>i. funvals i \<noteq> [] \<and> divisor (Fixed 1) (funcId i) = Inr 1) [record_rows]
   \<and> first_row_reaching (fl_mul (Fin 7) (Fin (real_of_int (ds_dim record_rows)))) (funvals record_rows)
       = (Fin 10, [Fin 2])
   \<and> plotFVDistr [record_rows] (Fixed 1) (Fin 7) = Inr ([Fin 2, Fin 2], [0, 1])"
proof -
  have h: "list_all (\<lambda>i. funvals i \<noteq> [] \<and> divisor (Fixed 1) (funcId i) = Inr ((\<lambda>i. 1) i)) [record_rows]"
    by (simp add: record_rows_def divisor_def)
  have f: "first_row_reaching (fl_mul (Fin 7) (Fin (real_of_int (ds_dim record_rows)))) (funvals record_rows)
       = (Fin 10, [Fin 2])"
    by (simp add: first_row_reaching_def record_rows_def fl_le_def less_eq_fl_def)
  have c: "clamp [Fin 2] (Fixed 1) = [Fin 2]"
    by (simp add: clamp_Fixed fl_le_def less_eq_fl_def)
  have e: "plotECDF [Fin 2] (Some 1) = ([Fin 2, Fin 2], [0, 1])"
    by (simp add: plotECDF_def)
  have n: "nbRuns record_rows = 1" by (simp add: record_rows_def)
  show ?thesis
    using plotFVDistr_budget_row[OF h, of "Fin 7"] h f by (simp add: fvd_tmp_def c e n)
qed

text \<open>
  Claim C3. The claim asks for the last function-value row, in ascending order of the
  evaluation counts, whose count does not exceed \<open>budget * dim\<close> (\<open>maxEvalsF\<close> is
  documented as the maximum evaluations that count), and for the first row when there is
  none. The loop stops at the first row whose count is at least the bound instead: with
  rows at 1, 5 and 10 evaluations and a budget of 7 in dimension 1 it takes the row of 10
  evaluations, gap 2, while the last row within the budget is the one of 5 evaluations,
  gap 4.
\<close>

theorem plotFVDistr_budget_row_divergence:
  "select_row (fl_mul (Fin 7) (Fin (real_of_int (ds_dim record_rows)))) None (funvals record_rows)
     \<noteq> Some (spec_select_row (fl_mul (Fin 7) (Fin (real_of_int (ds_dim record_rows)))) (funvals record_rows))
   \<and> select_row (fl_mul (Fin 7) (Fin (real_of_int (ds_dim record_rows)))) None (funvals record_rows)
       = Some (Fin 10, [Fin 2])
   \<and> spec_select_row (fl_mul (Fin 7) (Fin (real_of_int (ds_dim record_rows)))) (funvals record_rows)
       = (Fin 5, [Fin 4])
   \<and> plotFVDistr [record_rows] (Fixed 1) (Fin 7) = Inr ([Fin 2, Fin 2], [0, 1])"
  by (simp add: record_rows_def spec_select_row_def fl_le_def less_eq_fl_def
        plotFVDistr_def divisor_def clamp_Fixed plotECDF_def)

text \<open>
  Claim C2. The value written over the non-positive entries is the truth value of
  \<open>target > 0\<close> (1.0 or 0.0), whatever the positive gaps are. For the gaps
  \<open>[-2, 0, 3, 5]\<close> and target 2 the normalised gaps become \<open>[1, 1, 1.5, 2.5]\<close>, while
  the smallest positive value among the gaps and the target is not 1; for target 1 the
  result \<open>[1, 1, 3, 5]\<close> agrees with that smallest value.
\<close>

theorem plotFVDistr_clamp_value:
  "clamp tmp (Fixed t) =
     map (\<lambda>v. if fl_le v (Fin 0) then (if 0 < t then Fin 1 else Fin 0) else v) tmp
   \<and> fvd_loop (Fixed 2) PInf ([], 0, None) [record_gaps]
       = Inr ([Fin 1, Fin 1, Fin (3 / 2), Fin (5 / 2)], 4, Some (Fin 1, [Fin (- 2), Fin 0, Fin 3, Fin 5]))
   \<and> fvd_loop (Fixed 1) PInf ([], 0, None) [record_gaps]
       = Inr ([Fin 1, Fin 1, Fin 3, Fin 5], 4, Some (Fin 1, [Fin (- 2), Fin 0, Fin 3, Fin 5]))"
  by (simp add: clamp_Fixed record_gaps_def fl_le_def less_eq_fl_def divisor_def)

section \<open>The boundary extender\<close>

text \<open>
  An exception that the loop does not catch ends the call at the raising child: a
  marker-only step curve whose last abscissa is zero, placed before a solid step curve,
  leaves the solid curve without its extension.
\<close>

lemma beautifyECDF_aborts:
  "beautifyECDF ((1, 100), [Line2D zero_marker_line, Line2D step_line])
     = (Some ValueError, ((9 / 10, 100), [Line2D zero_marker_line, Line2D step_line]))"
  by (simp add: beautifyECDF_def extend_line_def zero_marker_line_def)

text \<open>
  Claim C8. For a solid step curve with at least one point, the extension leaves the curve
  as it is when its largest abscissa equals or exceeds \<open>xmax\<close>; when the largest abscissa
  is less than \<open>xmax\<close> it appends exactly the one point \<open>(xmax, last y)\<close> and changes
  nothing else of the curve. This is what \<open>beautifyECDF\<close> does to the curve wherever it
  stands among the children of the axes, provided the loop reaches it, that is, no child
  before it raises.
\<close>

theorem beautifyECDF_continuous:
  assumes "drawstyle l = ''steps''" and "linestyle l \<notin> {'''', ''None''}"
    and "xdata l \<noteq> []" and "ydata l \<noteq> []"
    and "k < length c" and "c ! k = Line2D l"
    and "fst (extend_children nbperdecade xmax (take k c)) = None"
  shows "extend_line nb xmax l =
           Inr (if Max (set (xdata l)) < xmax
                then l\<lparr>xdata := xdata l @ [xmax], ydata := ydata l @ [last (ydata l)]\<rparr>
                else l)
       \<and> snd (snd (beautifyECDF ((xmin, xmax), c))) ! k =
           Line2D (if Max (set (xdata l)) < xmax
                   then l\<lparr>xdata := xdata l @ [xmax], ydata := ydata l @ [last (ydata l)]\<rparr>
                   else l)"
  using extend_line_continuous[OF assms(1-4)]
        beautify_nth[OF assms(5,7,6) extend_line_continuous[OF assms(1-4)]]
  by simp

theorem beautifyECDF_continuous_witness:
  "drawstyle step_line = ''steps'' \<and> linestyle step_line \<notin> {'''', ''None''}
   \<and> xdata step_line \<noteq> [] \<and> ydata step_line \<noteq> []
   \<and> (1::nat) < length [Line2D marker_line, Line2D step_line]
   \<and> [Line2D marker_line, Line2D step_line] ! 1 = Line2D step_line
   \<and> fst (extend_children nbperdecade 100 (take 1 [Line2D marker_line, Line2D step_line])) = None
   \<and> fst (extend_children nbperdecade 4 (take 1 [Line2D marker_line, Line2D step_line])) = None
   \<and> snd (snd (beautifyECDF ((1, 100), [Line2D marker_line, Line2D step_line]))) ! 1
       = Line2D (step_line\<lparr>xdata := [2, 4, 4, 100], ydata := [0, 1 / 20, 1 / 10, 1 / 10]\<rparr>)
   \<and> snd (snd (beautifyECDF ((1, 4), [Line2D marker_line, Line2D step_line]))) ! 1
       = Line2D step_line"
proof -
  have h1: "drawstyle step_line = ''steps''" by (simp add: step_line_def)
  have h2: "linestyle step_line \<notin> {'''', ''None''}" by (simp add: step_line_def)
  have h3: "xdata step_line \<noteq> []" by (simp add: step_line_def)
  have h4: "ydata step_line \<noteq> []" by (simp add: step_line_def)
  have h5: "1 < length [Line2D marker_line, Line2D step_line]" by simp
  have h6: "[Line2D marker_line, Line2D step_line] ! 1 = Line2D step_line" by simp
  have h7: "fst (extend_children nbperdecade 100 (take 1 [Line2D marker_line, Line2D step_line])) = None"
    by (simp add: extend_line_def marker_line_def Let_def)
  have h8: "fst (extend_children nbperdecade 4 (take 1 [Line2D marker_line, Line2D step_line])) = None"
    by (simp add: extend_line_def marker_line_def Let_def)
  have x: "xdata step_line = [2, 4, 4]" and y: "ydata step_line = [0, 1 / 20, 1 / 10]"
    by (simp_all add: step_line_def)
  have a: "snd (snd (beautifyECDF ((1, 100), [Line2D marker_line, Line2D step_line]))) ! 1
       = Line2D (step_line\<lparr>xdata := [2, 4, 4, 100], ydata := [0, 1 / 20, 1 / 10, 1 / 10]\<rparr>)"
    using beautifyECDF_continuous[OF h1 h2 h3 h4 h5 h6 h7, of nbperdecade 1] by (simp add: x y)
  have b: "snd (snd (beautifyECDF ((1, 4), [Line2D marker_line, Line2D step_line]))) ! 1
       = Line2D step_line"
    using beautifyECDF_continuous[OF h1 h2 h3 h4 h5 h6 h8, of nbperdecade 1] by (simp add: x y)
  show ?thesis
    using h1 h2 h3 h4 h5 h6 h7 h8 a b by blast
qed

text \<open>
  Claim C7, as amended. For a marker-only step curve with at least one point, a positive last abscissa
  and a largest abscissa less than \<open>xmax\<close>, the extension appends, in increasing order,
  exactly the positions \<open>10 ** (m / nbperdecade)\<close>, \<open>m\<close> an integer, that lie between the
  last abscissa of the curve and \<open>xmax\<close>, both ends included, and gives each of them the
  last ordinate of the curve. This is what \<open>beautifyECDF\<close> does to the curve wherever it
  stands among the children of the axes, provided no child before it raises.
\<close>

theorem beautifyECDF_markers:
  assumes "drawstyle l = ''steps''" and "marker l \<noteq> ''''" and "linestyle l \<in> {'''', ''None''}"
    and "xdata l \<noteq> []" and "ydata l \<noteq> []"
    and "0 < last (xdata l)" and "Max (set (xdata l)) < xmax"
    and "k < length c" and "c ! k = Line2D l"
    and "fst (extend_children nbperdecade xmax (take k c)) = None"
  shows "\<exists>ps. extend_line nbperdecade xmax l =
                Inr (l\<lparr>xdata := xdata l @ ps,
                       ydata := ydata l @ replicate (length ps) (last (ydata l))\<rparr>)
            \<and> snd (snd (beautifyECDF ((xmin, xmax), c))) ! k =
                Line2D (l\<lparr>xdata := xdata l @ ps,
                          ydata := ydata l @ replicate (length ps) (last (ydata l))\<rparr>)
            \<and> sorted_wrt (<) ps
            \<and> set ps = {p. (\<exists>m::int. p = 10 powr (real_of_int m / real_of_int nbperdecade))
                             \<and> last (xdata l) \<le> p \<and> p \<le> xmax}"
proof -
  have nb: "0 < nbperdecade" by (simp add: nbperdecade_def)
  have "last (xdata l) \<le> Max (set (xdata l))" using assms(4) by simp
  then have xmax: "0 < xmax" using assms(6,7) by linarith
  let ?ps = "marker_positions nbperdecade (last (xdata l)) xmax"
  note e = extend_line_markers[OF assms(1-7), of nbperdecade]
  have "snd (snd (beautifyECDF ((xmin, xmax), c))) ! k =
          Line2D (l\<lparr>xdata := xdata l @ ?ps,
                    ydata := ydata l @ replicate (length ?ps) (last (ydata l))\<rparr>)"
    by (rule beautify_nth[OF assms(8,10,9) e])
  moreover have "sorted_wrt (<) ?ps" by (rule marker_positions_increasing[OF nb])
  moreover have "set ?ps = {p. (\<exists>m::int. p = 10 powr (real_of_int m / real_of_int nbperdecade))
                             \<and> last (xdata l) \<le> p \<and> p \<le> xmax}"
    using marker_positions_set[OF assms(6) xmax nb] by auto
  ultimately show ?thesis using e by blast
qed

theorem beautifyECDF_markers_witness:
  "drawstyle marker_line = ''steps'' \<and> marker marker_line \<noteq> ''''
   \<and> linestyle marker_line \<in> {'''', ''None''}
   \<and> xdata marker_line \<noteq> [] \<and> ydata marker_line \<noteq> []
   \<and> 0 < last (xdata marker_line) \<and> Max (set (xdata marker_line)) < 150
   \<and> (1::nat) < length [Line2D step_line, Line2D marker_line]
   \<and> [Line2D step_line, Line2D marker_line] ! 1 = Line2D marker_line
   \<and> fst (extend_children nbperdecade 150 (take 1 [Line2D step_line, Line2D marker_line])) = None
   \<and> (\<exists>ps. snd (snd (beautifyECDF ((1, 150), [Line2D step_line, Line2D marker_line]))) ! 1 =
                Line2D (marker_line\<lparr>xdata := xdata marker_line @ ps,
                          ydata := ydata marker_line @ replicate (length ps) (last (ydata marker_line))\<rparr>)
            \<and> sorted_wrt (<) ps
            \<and> set ps = {p. (\<exists>m::int. p = 10 powr (real_of_int m / real_of_int nbperdecade))
                             \<and> last (xdata marker_line) \<le> p \<and> p \<le> 150})
   \<and> snd (snd (beautifyECDF ((1, 150), [Line2D step_line, Line2D marker_line]))) ! 1
       = Line2D (marker_line\<lparr>xdata := [2, 3, 10, 100], ydata := [0, 1 / 2, 1 / 2, 1 / 2]\<rparr>)"
proof -
  have h1: "drawstyle marker_line = ''steps''" by (simp add: marker_line_def)
  have h2: "marker marker_line \<noteq> ''''" by (simp add: marker_line_def)
  have h3: "linestyle marker_line \<in> {'''', ''None''}" by (simp add: marker_line_def)
  have h4: "xdata marker_line \<noteq> []" by (simp add: marker_line_def)
  have h5: "ydata marker_line \<noteq> []" by (simp add: marker_line_def)
  have h6: "0 < last (xdata marker_line)" by (simp add: marker_line_def)
  have h7: "Max (set (xdata marker_line)) < 150" by (simp add: marker_line_def)
  have h8: "1 < length [Line2D step_line, Line2D marker_line]" by simp
  have h9: "[Line2D step_line, Line2D marker_line] ! 1 = Line2D marker_line" by simp
  have h10: "fst (extend_children nbperdecade 150 (take 1 [Line2D step_line, Line2D marker_line])) = None"
    by (simp add: extend_line_def step_line_def)
  have e: "snd (snd (beautifyECDF ((1, 150), [Line2D step_line, Line2D marker_line]))) ! 1
       = Line2D (marker_line\<lparr>xdata := [2, 3, 10, 100], ydata := [0, 1 / 2, 1 / 2, 1 / 2]\<rparr>)"
    using beautify_nth[OF h8 h10 h9 extend_line_markers[OF h1 h2 h3 h4 h5 h6 h7, of nbperdecade], of 1]
    by (simp add: nbperdecade_def marker_positions_3_150 marker_line_def)
  show ?thesis
    using beautifyECDF_markers[OF h1 h2 h3 h4 h5 h6 h7 h8 h9 h10, of 1]
          h1 h2 h3 h4 h5 h6 h7 h8 h9 h10 e
    by blast
qed

text \<open>
  Without a positive last abscissa the claim C7 fails: a marker-only step curve with the
  single point \<open>(0, 0)\<close> has a largest abscissa below \<open>xmax = 100\<close>, but nothing is
  appended to it; the call ends with \<open>ValueError\<close> and the curve is as it was.
\<close>

theorem beautifyECDF_markers_counterexample:
  "drawstyle zero_marker_line = ''steps'' \<and> marker zero_marker_line \<noteq> ''''
   \<and> linestyle zero_marker_line \<in> {'''', ''None''}
   \<and> xdata zero_marker_line \<noteq> [] \<and> ydata zero_marker_line \<noteq> []
   \<and> Max (set (xdata zero_marker_line)) < 100
   \<and> extend_line nbperdecade 100 zero_marker_line = Inl ValueError
   \<and> beautifyECDF ((1, 100), [Line2D zero_marker_line])
       = (Some ValueError, ((9 / 10, 100), [Line2D zero_marker_line]))"
  by (simp add: beautifyECDF_def extend_line_def zero_marker_line_def)

section \<open>The stored ceiling\<close>

text \<open>
  What the head of the dimension loop does to the ceiling. With \<open>isStoringXMax\<close> true and
  no ceiling stored on entry, the non-zero ceiling computed for the first dimension
  processed is used for every dimension of the invocation and stays stored; a ceiling
  already stored on entry is used for every dimension instead. With \<open>isStoringXMax\<close>
  false the ceiling of every dimension is the one computed for that dimension, whatever was
  stored on entry, and the last of them stays stored. The same holds for \<open>comp\<close>.
\<close>

theorem main_frozen_ceiling:
  assumes "f \<noteq> 0" and "\<not> truthy e0" and "truthy e1"
  shows "main True (f # rest) e0 = (replicate (length (f # rest)) (Some f), Some f)
       \<and> main True factors e1 = (replicate (length factors) e1, e1)
       \<and> main False factors e = (map Some factors, if factors = [] then e else Some (last factors))
       \<and> comp_figures True (f # rest) e0 = (replicate (length (f # rest)) (Some f), Some f)
       \<and> comp_figures True factors e1 = (replicate (length factors) e1, e1)
       \<and> comp_figures False factors e = (map Some factors, if factors = [] then e else Some (last factors))"
proof -
  have "main True (f # rest) e0 = (replicate (length (f # rest)) (Some f), Some f)"
    using assms(1,2) main_True_stored[of "Some f" rest] by (simp add: set_evalfmax_True Let_def)
  then show ?thesis
    using main_True_stored[OF assms(3)] by (simp add: comp_figures_def main_False)
qed

theorem main_frozen_ceiling_witness:
  "(3::real) \<noteq> 0 \<and> \<not> truthy None \<and> truthy (Some 7)
   \<and> main True [3, 5, 4] None = ([Some 3, Some 3, Some 3], Some 3)
   \<and> main True [3, 5, 4] (Some 7) = ([Some 7, Some 7, Some 7], Some 7)
   \<and> main False [3, 5, 4] (Some 7) = ([Some 3, Some 5, Some 4], Some 4)"
proof -
  have h1: "(3::real) \<noteq> 0" by simp
  have h2: "\<not> truthy None" by simp
  have h3: "truthy (Some 7)" by simp
  show ?thesis
    using main_frozen_ceiling[OF h1 h2 h3, of "[5, 4]" "[3, 5, 4]" "Some 7"] by simp
qed

text \<open>
  Claim C9. The claim has every top-level call start from an unset ceiling unless the
  caller asked to store it, so that a call with \<open>isStoringXMax\<close> true freezes the ceiling
  computed from its first dimension. The declaration \<open>global evalfmax\<close> stands in the
  branch of \<open>isStoringXMax\<close> but holds for the whole function: a call with
  \<open>isStoringXMax\<close> false writes the module variable too. After such a call on one
  dimension with the factor 9, starting from the unset variable, a call with
  \<open>isStoringXMax\<close> true on dimensions with the factors 3, 5 and 4 draws all of them with
  the ceiling 9, where the claim has the ceiling 3 of its first dimension, the one a call
  from the unset variable gives.
\<close>

theorem main_stale_ceiling:
  "main False [9] None = ([Some 9], Some 9)
   \<and> main True [3, 5, 4] (snd (main False [9] None)) = ([Some 9, Some 9, Some 9], Some 9)
   \<and> main True [3, 5, 4] None = ([Some 3, Some 3, Some 3], Some 3)
   \<and> comp_figures True [3, 5, 4] (snd (comp_figures False [9] None))
       = ([Some 9, Some 9, Some 9], Some 9)"
  by (simp add: comp_figures_def set_evalfmax_def runlen_xlimits_max_def Let_def)

end
